theory Spec2Isabelle
  imports Main "HOL-Library.List_Lexorder" "HOL-Library.Char_ord"
begin

section \<open>Strings and library capabilities\<close>

text \<open>
  Go strings are byte sequences; \<open>len\<close> counts bytes, so a Go string is a
  \<^typ>\<open>string\<close> here. A run-time panic of the Go program is a value of
  \<open>panic\<close>, returned on the left of a sum.
\<close>

datatype panic =
    SliceBoundsOutOfRange | IndexOutOfRange | TypeAssertion | UnknownBodyType | NilMapAssignment

text \<open>
  \<open>strings.Index(s, substr)\<close> of the Go standard library: the index of the first
  instance of \<open>substr\<close> in \<open>s\<close>, or \<open>-1\<close> when there is none.
\<close>

fun Index :: "string \<Rightarrow> string \<Rightarrow> int" where
  "Index [] sub = (if sub = [] then 0 else - 1)"
| "Index (c # cs) sub =
     (if take (length sub) (c # cs) = sub then 0
      else (let r = Index cs sub in if r = - 1 then - 1 else r + 1))"

text \<open>
  Modelled from the spec: \<open>gstrings.StringBetween\<close> lives in the helper module
  \<open>github.com/gee-m/go-helpers\<close>, which is not part of the sources. The spec
  describes it as locating "the substring strictly between the match of
  \<open>AfterThis\<close> and the following \<open>BeforeThis\<close>".
\<close>

definition StringBetween :: "string \<Rightarrow> string \<Rightarrow> string \<Rightarrow> bool \<times> string" where
  "StringBetween body bef aft =
     (let befIndex = Index body bef in
      if befIndex = - 1 then (False, [])
      else (let rest = drop (nat befIndex + length bef) body;
                aftIndex = Index rest aft in
            if aftIndex = - 1 then (False, [])
            else (True, take (nat aftIndex) rest)))"

lemma Index_ge: "- 1 \<le> Index s sub"
  by (induction s) (auto simp: Let_def)

lemma Index_le: "Index s sub \<le> int (length s)"
  by (induction s) (auto simp: Let_def)

section \<open>Occurrence search\<close>

text \<open>
  \<open>stringBetweenN\<close> of \<open>step.go\<close>. The slice expression
  \<open>body[befIndex+len(bef)+1:]\<close> panics when its lower bound exceeds \<open>len(body)\<close>.
\<close>

function stringBetweenN :: "string \<Rightarrow> string \<Rightarrow> string \<Rightarrow> int \<Rightarrow> panic + bool \<times> string" where
  "stringBetweenN body bef aft occ =
     (if occ = 0 then Inr (StringBetween body bef aft)
      else (let befIndex = Index body bef in
            if befIndex = - 1 then Inr (False, [])
            else if int (length body) < befIndex + int (length bef) + 1
              then Inl SliceBoundsOutOfRange
            else stringBetweenN (drop (nat (befIndex + int (length bef) + 1)) body)
                   bef aft (occ - 1)))"
  by pat_completeness auto

termination
proof (relation "measure (\<lambda>(body, bef, aft, occ). length body)")
  show "wf (measure (\<lambda>(body, bef, aft, occ). length body))" by simp
next
  fix body bef aft :: string and occ befIndex :: int
  assume a: "befIndex = Index body bef" "befIndex \<noteq> - 1"
    "\<not> int (length body) < befIndex + int (length bef) + 1"
  have "0 \<le> befIndex" using Index_ge [of body bef] a by linarith
  then show "((drop (nat (befIndex + int (length bef) + 1)) body, bef, aft, occ - 1),
              (body, bef, aft, occ)) \<in> measure (\<lambda>(body, bef, aft, occ). length body)"
    using a by auto
qed

declare stringBetweenN.simps [simp del]

section \<open>Extraction rules\<close>

text \<open>
  \<open>Extractable\<close> of \<open>step.go\<close>. \<open>Again\<close> is a pointer to a further rule, \<open>nil\<close>
  being \<open>None\<close>. \<open>MaxLength\<close> and \<open>MinLength\<close> are Go \<open>int\<close>s, compared with
  \<open>len(bet)\<close> and with \<open>-1\<close> only.
\<close>

datatype Extractable = Extractable
  (AfterThis: string) (BeforeThis: string) (Name: string) (Iterate: bool)
  (MaxLength: int) (MinLength: int) (MatchRegexp: string) (IgnoreNotFound: bool)
  (Again: "Extractable option")

text \<open>The errors \<open>Extract\<close> builds, one constructor for each message format.\<close>

datatype extract_error =
    NotFound
  | MaxLengthReached int string
  | MinLengthReached int string
  | RegexNotMatched string string
  | RegexError string

text \<open>
  \<open>regexp.Match(pattern, b)\<close> of the Go standard library is a parameter of the
  model: \<open>Inl msg\<close> stands for a pattern that does not compile, \<open>Inr m\<close> for the
  match result of a pattern that does. Go returns \<open>(false, err)\<close> in the first case
  and \<open>(m, nil)\<close> in the second; \<open>matched\<close> and \<open>match_err\<close> are these two
  components.
\<close>

type_synonym regexp_Match = "string \<Rightarrow> string \<Rightarrow> string + bool"

definition matched :: "string + bool \<Rightarrow> bool" where
  "matched r = (case r of Inl _ \<Rightarrow> False | Inr m \<Rightarrow> m)"

definition match_err :: "string + bool \<Rightarrow> extract_error option" where
  "match_err r = (case r of Inl msg \<Rightarrow> Some (RegexError msg) | Inr _ \<Rightarrow> None)"

text \<open>The assignment \<open>e.MatchRegexp = ...\<close> on the receiver's copy.\<close>

fun set_MatchRegexp :: "string \<Rightarrow> Extractable \<Rightarrow> Extractable" where
  "set_MatchRegexp p (Extractable a b n it mx mn _ ig ag) = Extractable a b n it mx mn p ig ag"

text \<open>
  The two anchoring statements, run on a non-empty pattern: \<open>e.MatchRegexp[0]\<close> and
  \<open>e.MatchRegexp[len(e.MatchRegexp)-1]\<close> are in range there.
\<close>

definition anchor :: "string \<Rightarrow> string" where
  "anchor p =
     (let p1 = (if hd p \<noteq> CHR ''^'' then CHR ''^'' # p else p)
      in if last p1 \<noteq> CHR ''$'' then p1 @ ''$'' else p1)"

text \<open>
  The constraint chain of one loop iteration: the error it leaves in \<open>err\<close> and the
  receiver copy after it. In the regex branch \<open>err\<close> still holds its zero value
  \<open>nil\<close> when the source tests \<open>err != nil\<close>; the test is kept as written.
\<close>

definition check_conditions ::
  "regexp_Match \<Rightarrow> Extractable \<Rightarrow> string \<Rightarrow> extract_error option \<times> Extractable" where
  "check_conditions rx e bet =
     (if MaxLength e \<noteq> - 1 \<and> MaxLength e < int (length bet)
        then (Some (MaxLengthReached (MaxLength e) bet), e)
      else if MinLength e \<noteq> - 1 \<and> int (length bet) < MinLength e
        then (Some (MinLengthReached (MinLength e) bet), e)
      else if MatchRegexp e \<noteq> []
        then (let p = anchor (MatchRegexp e);
                  r = rx p bet;
                  err = (None :: extract_error option)
              in (if err \<noteq> None then match_err r
                  else if \<not> matched r then Some (RegexNotMatched p bet)
                  else None,
                  set_MatchRegexp p e))
      else (None, e))"

text \<open>Nesting depth of a rule through \<open>Again\<close>.\<close>

fun depth :: "Extractable \<Rightarrow> nat" where
  "depth (Extractable a b n it mx mn p ig ag) =
     (case ag of None \<Rightarrow> 0 | Some e \<Rightarrow> Suc (depth e))"

lemma set_MatchRegexp_sel [simp]:
  "AfterThis (set_MatchRegexp p e) = AfterThis e"
  "BeforeThis (set_MatchRegexp p e) = BeforeThis e"
  "Name (set_MatchRegexp p e) = Name e"
  "Iterate (set_MatchRegexp p e) = Iterate e"
  "MaxLength (set_MatchRegexp p e) = MaxLength e"
  "MinLength (set_MatchRegexp p e) = MinLength e"
  "MatchRegexp (set_MatchRegexp p e) = p"
  "IgnoreNotFound (set_MatchRegexp p e) = IgnoreNotFound e"
  "Again (set_MatchRegexp p e) = Again e"
  "depth (set_MatchRegexp p e) = depth e"
  by (cases e; simp)+

lemma depth_Again: "Again e = Some a \<Longrightarrow> depth a < depth e"
  by (cases e) simp

lemma check_conditions_frame:
  assumes "check_conditions rx e bet = (err, e')"
  shows "depth e' = depth e" "Again e' = Again e" "Name e' = Name e"
    "Iterate e' = Iterate e" "IgnoreNotFound e' = IgnoreNotFound e"
    "AfterThis e' = AfterThis e" "BeforeThis e' = BeforeThis e"
    "MaxLength e' = MaxLength e" "MinLength e' = MinLength e"
  using assms by (auto simp: check_conditions_def Let_def split: if_splits)

lemma stringBetweenN_found_le:
  "stringBetweenN body bef aft occ = Inr (True, bet) \<Longrightarrow> occ \<le> int (length body)"
proof (induction body bef aft occ rule: stringBetweenN.induct)
  case (1 body bef aft occ)
  show ?case
  proof (cases "occ = 0")
    case True
    then show ?thesis by simp
  next
    case False
    let ?k = "Index body bef + int (length bef) + 1"
    from "1.prems" False have nf: "Index body bef \<noteq> - 1"
      by (auto simp: stringBetweenN.simps [of body] Let_def split: if_splits)
    from "1.prems" False nf have inb: "\<not> int (length body) < ?k"
      by (auto simp: stringBetweenN.simps [of body] Let_def split: if_splits)
    from "1.prems" False nf inb
    have rec: "stringBetweenN (drop (nat ?k) body) bef aft (occ - 1) = Inr (True, bet)"
      by (simp add: stringBetweenN.simps [of body] Let_def)
    have "occ - 1 \<le> int (length (drop (nat ?k) body))"
      using "1.IH" [OF False refl nf inb rec] .
    moreover have "0 \<le> Index body bef" using Index_ge [of body bef] nf by linarith
    ultimately show ?thesis using inb by simp
  qed
qed

text \<open>
  \<open>Extractable.Extract\<close>, from occurrence index \<open>i\<close> on: one loop iteration and
  the call that follows it. Go returns the triple \<open>(name, value, err)\<close>.
\<close>

function Extract_from ::
  "regexp_Match \<Rightarrow> Extractable \<Rightarrow> string \<Rightarrow> int
     \<Rightarrow> panic + string \<times> string \<times> extract_error option" where
  "Extract_from rx e body i =
     (case stringBetweenN body (AfterThis e) (BeforeThis e) i of
        Inl p \<Rightarrow> Inl p
      | Inr (found, bet) \<Rightarrow>
          if \<not> found then
            (if IgnoreNotFound e then Inr (Name e, [], None)
             else Inr (Name e, [], Some NotFound))
          else (case check_conditions rx e bet of (err, e') \<Rightarrow>
            if err \<noteq> None then
              (if Iterate e' then Extract_from rx e' body (i + 1)
               else if IgnoreNotFound e' then Inr (Name e', [], None)
               else Inr (Name e', [], err))
            else (case Again e' of
                    Some a \<Rightarrow> Extract_from rx a bet 0
                  | None \<Rightarrow> Inr (Name e', bet, None))))"
  by pat_completeness auto

termination
proof (relation "measures [\<lambda>(rx, e, body, i). depth e,
                          \<lambda>(rx, e, body, i). nat (int (length body) + 1 - i)]")
  show "wf (measures [\<lambda>(rx, e, body, i). depth e,
                      \<lambda>(rx, e, body, i). nat (int (length body) + 1 - i)])"
    by simp
next
  fix rx :: regexp_Match and e e' :: Extractable and body bet :: string and i :: int
    and b :: "bool \<times> string" and found :: bool and err :: "extract_error option"
  assume a: "stringBetweenN body (AfterThis e) (BeforeThis e) i = Inr b"
    "(found, bet) = b" "\<not> \<not> found" "(err, e') = check_conditions rx e bet"
  from a have "stringBetweenN body (AfterThis e) (BeforeThis e) i = Inr (True, bet)" by auto
  then have "i \<le> int (length body)" by (rule stringBetweenN_found_le)
  moreover from a have "depth e' = depth e"
    using check_conditions_frame(1) [of rx e bet err e'] by simp
  ultimately show "((rx, e', body, i + 1), (rx, e, body, i))
     \<in> measures [\<lambda>(rx, e, body, i). depth e,
                  \<lambda>(rx, e, body, i). nat (int (length body) + 1 - i)]"
    by simp
next
  fix rx :: regexp_Match and e e' a :: Extractable and body bet :: string and i :: int
    and err :: "extract_error option"
  assume a: "(err, e') = check_conditions rx e bet" "Again e' = Some a"
  then have "Again e = Some a"
    using check_conditions_frame(2) [of rx e bet err e'] by simp
  then have "depth a < depth e" by (rule depth_Again)
  then show "((rx, a, bet, 0), (rx, e, body, i))
     \<in> measures [\<lambda>(rx, e, body, i). depth e,
                  \<lambda>(rx, e, body, i). nat (int (length body) + 1 - i)]"
    by simp
qed

declare Extract_from.simps [simp del]

text \<open>\<open>Extract\<close> starts the loop at \<open>i := 0\<close>; the map argument \<open>v\<close> is not read.\<close>

definition Extract :: "regexp_Match \<Rightarrow> Extractable \<Rightarrow> string
     \<Rightarrow> panic + string \<times> string \<times> extract_error option" where
  "Extract rx e body = Extract_from rx e body 0"

subsection \<open>Properties of the extraction loop\<close>

lemma anchor_nonempty: "p \<noteq> [] \<Longrightarrow> anchor p \<noteq> []"
  by (simp add: anchor_def Let_def)

lemma anchor_idem: "p \<noteq> [] \<Longrightarrow> anchor (anchor p) = anchor p"
  by (cases p) (auto simp: anchor_def Let_def)

lemma set_MatchRegexp_twice [simp]:
  "set_MatchRegexp p (set_MatchRegexp q e) = set_MatchRegexp p e"
  by (cases e) simp

text \<open>The rule as the loop holds it once the regex branch has run.\<close>

definition anchored_rule :: "Extractable \<Rightarrow> Extractable" where
  "anchored_rule e = (if MatchRegexp e = [] then e else set_MatchRegexp (anchor (MatchRegexp e)) e)"

lemma anchored_rule_sel [simp]:
  "AfterThis (anchored_rule e) = AfterThis e"
  "BeforeThis (anchored_rule e) = BeforeThis e"
  "Name (anchored_rule e) = Name e"
  "Iterate (anchored_rule e) = Iterate e"
  "MaxLength (anchored_rule e) = MaxLength e"
  "MinLength (anchored_rule e) = MinLength e"
  "IgnoreNotFound (anchored_rule e) = IgnoreNotFound e"
  "Again (anchored_rule e) = Again e"
  by (simp_all add: anchored_rule_def)

lemma anchored_rule_idem [simp]: "anchored_rule (anchored_rule e) = anchored_rule e"
  by (simp add: anchored_rule_def anchor_nonempty anchor_idem)

lemma check_conditions_snd:
  "snd (check_conditions rx e bet) = e \<or> snd (check_conditions rx e bet) = anchored_rule e"
  by (auto simp: check_conditions_def anchored_rule_def Let_def)

lemma check_conditions_anchored_fst:
  "fst (check_conditions rx (anchored_rule e) bet) = fst (check_conditions rx e bet)"
  by (auto simp: check_conditions_def anchored_rule_def Let_def anchor_nonempty anchor_idem)

lemma check_conditions_anchored_snd:
  "snd (check_conditions rx (anchored_rule e) bet) = anchored_rule e"
  by (auto simp: check_conditions_def anchored_rule_def Let_def anchor_nonempty anchor_idem)

lemma Extract_from_unfold:
  "Extract_from rx e body i =
     (case stringBetweenN body (AfterThis e) (BeforeThis e) i of
        Inl p \<Rightarrow> Inl p
      | Inr (found, bet) \<Rightarrow>
          if \<not> found then Inr (Name e, [], if IgnoreNotFound e then None else Some NotFound)
          else if fst (check_conditions rx e bet) \<noteq> None then
              (if Iterate e then Extract_from rx (snd (check_conditions rx e bet)) body (i + 1)
               else Inr (Name e, [], if IgnoreNotFound e then None
                                     else fst (check_conditions rx e bet)))
          else (case Again e of
                    Some a \<Rightarrow> Extract_from rx a bet 0
                  | None \<Rightarrow> Inr (Name e, bet, None)))"
  by (subst Extract_from.simps)
     (auto split: sum.splits prod.splits option.splits
           dest: check_conditions_frame)

lemma Extract_from_anchored:
  "Extract_from rx (anchored_rule e) body i = Extract_from rx e body i"
proof (induction rx e body i rule: Extract_from.induct)
  case (1 rx e body i)
  show ?case
  proof (cases "stringBetweenN body (AfterThis e) (BeforeThis e) i")
    case (Inl p)
    then show ?thesis
      by (simp add: Extract_from_unfold [of rx e body i]
          Extract_from_unfold [of rx "anchored_rule e" body i])
  next
    case (Inr b)
    obtain found bet where b: "b = (found, bet)" by (cases b)
    obtain err e' where c: "check_conditions rx e bet = (err, e')"
      by (cases "check_conditions rx e bet")
    show ?thesis
    proof (cases "found \<and> err \<noteq> None \<and> Iterate e")
      case True
      have it: "Iterate e'" using check_conditions_frame(4) [OF c] True by simp
      have "Extract_from rx (anchored_rule e') body (i + 1) = Extract_from rx e' body (i + 1)"
        using "1.IH"(1) [OF Inr b [symmetric] _ c [symmetric] _ it] True by simp
      moreover have "anchored_rule e' = anchored_rule e"
        using check_conditions_snd [of rx e bet] c by auto
      ultimately show ?thesis
        using Inr b c True
        by (simp add: Extract_from_unfold [of rx e body i]
            Extract_from_unfold [of rx "anchored_rule e" body i]
            check_conditions_anchored_fst check_conditions_anchored_snd)
    next
      case False
      then show ?thesis
        using Inr b c
        by (auto simp add: Extract_from_unfold [of rx e body i]
            Extract_from_unfold [of rx "anchored_rule e" body i]
            check_conditions_anchored_fst check_conditions_anchored_snd
            split: option.splits)
    qed
  qed
qed

lemma Extract_from_retry:
  assumes "stringBetweenN body (AfterThis e) (BeforeThis e) i = Inr (True, bet)"
    and "fst (check_conditions rx e bet) \<noteq> None" and "Iterate e"
  shows "Extract_from rx e body i = Extract_from rx e body (i + 1)"
proof -
  have "Extract_from rx e body i = Extract_from rx (snd (check_conditions rx e bet)) body (i + 1)"
    using assms by (simp add: Extract_from_unfold [of rx e body i])
  also have "\<dots> = Extract_from rx e body (i + 1)"
    using check_conditions_snd [of rx e bet] Extract_from_anchored [of rx e body "i + 1"]
    by auto
  finally show ?thesis .
qed

text \<open>
  The anchoring in the words of the specification: a \<open>^\<close> is put in front of a
  pattern that does not start with one, a \<open>$\<close> behind a pattern that does not end
  with one.
\<close>

definition auto_anchored :: "string \<Rightarrow> string" where
  "auto_anchored p =
     (if hd p = CHR ''^'' then [] else ''^'') @ p @ (if last p = CHR ''$'' then [] else ''$'')"

text \<open>
  A table of \<open>regexp.Match\<close> for the examples: the pattern \<open>^($\<close> does not
  compile (its parenthesis is never closed), and an anchored pattern \<open>^w$\<close> whose
  \<open>w\<close> holds letters only matches exactly \<open>w\<close>. The examples use patterns of
  these two forms only.
\<close>

definition regexp_Match_sample :: regexp_Match where
  "regexp_Match_sample p s =
     (if p = ''^($'' then Inl ''missing closing )'' else Inr (p = ''^'' @ s @ ''$''))"

lemma anchor_auto_anchored: "p \<noteq> [] \<Longrightarrow> anchor p = auto_anchored p"
  by (cases p) (auto simp: anchor_def auto_anchored_def Let_def)

lemma stringBetweenN_0: "stringBetweenN body bef aft 0 = Inr (StringBetween body bef aft)"
  by (simp add: stringBetweenN.simps [of body])


section \<open>Requests and steps\<close>

text \<open>
  A value of the store has type \<open>interface{}\<close>: a string, or a value of another
  dynamic type (given by its printed form). The store itself is a Go map, \<open>None\<close>
  being the \<open>nil\<close> map: reading it finds no key, writing to it panics.
\<close>

datatype val = VString string | VOther string

type_synonym store = "(string \<rightharpoonup> val) option"

definition lookup :: "store \<Rightarrow> string \<Rightarrow> val option" where
  "lookup vals k = (case vals of None \<Rightarrow> None | Some m \<Rightarrow> m k)"

text \<open>
  \<open>http.Header\<close> and \<open>url.Values\<close> are both \<open>map[string][]string\<close>. A map is given
  as the list of its entries, keys distinct, in the order a \<open>range\<close> loop visits them.
\<close>

type_synonym multimap = "(string \<times> string list) list"

fun put :: "multimap \<Rightarrow> string \<Rightarrow> string list \<Rightarrow> multimap" where
  "put [] k v = [(k, v)]"
| "put ((k', v') # m) k v = (if k' = k then (k, v) # m else (k', v') # put m k v)"

text \<open>
  The request body is an \<open>interface{}\<close>: \<open>nil\<close>, a \<open>[]byte\<close>, a \<open>string\<close>, a
  \<open>url.Values\<close>, or a value of any other type.
\<close>

datatype body = NoBody | Bytes string | Text string | Form multimap | OtherBody

record Request =
  URL :: string
  Method :: string
  Header :: multimap
  Body :: body
  IgnoreRedirects :: bool

text \<open>What the transport hands back: status, header, and what reading the body stream gives.\<close>

record http_Response =
  StatusCode :: int
  RespHeader :: multimap
  Stream :: "string + string"

record Response =
  Raw :: http_Response
  RBody :: string
  RHeader :: multimap

text \<open>
  \<open>KeysOutput\<close> holds \<open>Extracter\<close>s; the package's own implementation,
  \<open>Extractable\<close>, is the one modelled. \<open>PostHook\<close> is \<open>None\<close> for \<open>nil\<close> and
  returns the message of its error.
\<close>

record Step =
  StepName :: string
  Request :: Request
  Response :: "Response option"
  KeysInput :: "string list"
  KeysOutput :: "Extractable list"
  PostHook :: "(int \<Rightarrow> multimap \<Rightarrow> string \<Rightarrow> string option) option"

text \<open>What goes over the wire in \<open>Request.Do\<close>.\<close>

record wire_request =
  wMethod :: string
  wURL :: string
  wHeader :: multimap
  wBody :: string
  wNoRedirects :: bool

text \<open>
  The collaborators of the package, parameters of the model:
  \<^item> \<open>regexp\<close>: \<open>regexp.Match\<close>;
  \<^item> \<open>template\<close>: \<open>template.New(name).Parse(text)\<close> followed by \<open>Execute\<close> on the
    store, \<open>Inl\<close> the message of the error of either;
  \<^item> \<open>canonical\<close>: \<open>textproto.CanonicalMIMEHeaderKey\<close>, behind \<open>Header.Get\<close> and
    \<open>Header.Set\<close>;
  \<^item> \<open>encode\<close>: \<open>url.Values.Encode\<close>;
  \<^item> \<open>cookiejar_New\<close>: \<open>cookiejar.New(nil)\<close>;
  \<^item> \<open>send\<close>: \<open>http.NewRequest\<close> and \<open>http.Client.Do\<close> with the flow's jar, on a
    state \<open>'w\<close> of the network and the jar's contents;
  \<^item> \<open>gunzip\<close>: \<open>gzip.NewReader\<close> and reading through it.
\<close>

record ('j, 'w) library =
  regexp :: regexp_Match
  template :: "string \<Rightarrow> store \<Rightarrow> string \<Rightarrow> string + string"
  canonical :: "string \<Rightarrow> string"
  encode :: "multimap \<Rightarrow> string"
  cookiejar_New :: "string + 'j"
  send :: "'j \<Rightarrow> wire_request \<Rightarrow> 'w \<Rightarrow> (string + http_Response) \<times> 'w"
  gunzip :: "string \<Rightarrow> string + string"

text \<open>
  Errors of \<open>Execute\<close>. A \<open>MissingValueError\<close> carries its \<open>Prepend\<close>, empty or
  \<open>Step i.'name' failed:\<close>; a \<open>StepError\<close> is an error built with the prefix
  \<open>Step i.'name'\<close>; \<open>Verbatim\<close> is an error of a collaborator returned as it came.
\<close>

datatype replace_error = TemplateError string | NothingReplaced

datatype step_failure =
    NotEnoughReplacements
  | Replace replace_error
  | CouldNotExtract string extract_error
  | NoIndex string
  | Hook string

datatype error =
    MissingValueError "(nat \<times> string) option" string
  | StepError nat string step_failure
  | Verbatim string

datatype ('e, 'a) result = Ok 'a | Err 'e | Panic panic

subsection \<open>Counting placeholders\<close>

text \<open>\<open>strings.Count(s, substr)\<close> for a non-empty \<open>substr\<close>: non-overlapping instances.\<close>

function Count :: "string \<Rightarrow> string \<Rightarrow> nat" where
  "Count s sub =
     (if s = [] \<or> sub = [] then 0
      else if take (length sub) s = sub then Suc (Count (drop (length sub) s) sub)
      else Count (tl s) sub)"
  by pat_completeness auto

termination
  by (relation "measure (\<lambda>(s, sub). length s)") auto

declare Count.simps [simp del]

fun join :: "string \<Rightarrow> string list \<Rightarrow> string" where
  "join sep [] = []"
| "join sep [x] = x"
| "join sep (x # y # xs) = x @ sep @ join sep (y # xs)"

text \<open>\<open>fmt.Sprintf("%v", header)\<close>: \<open>map[k1:[v1 v2] k2:[v3]]\<close>, keys in sorted order.\<close>

definition Sprintf_v :: "multimap \<Rightarrow> string" where
  "Sprintf_v h =
     ''map['' @ join '' '' (map (\<lambda>(k, vs). k @ '':['' @ join '' '' vs @ '']'') (sort_key fst h)) @ '']''"

fun countForm :: "multimap \<Rightarrow> string \<Rightarrow> nat \<Rightarrow> (error, nat) result" where
  "countForm [] c tot = Ok tot"
| "countForm ((k, v) # t) c tot =
     (if v = [] then Panic IndexOutOfRange
      else countForm t c (tot + Count k c + Count (last v) c))"

definition countBody :: "body \<Rightarrow> string \<Rightarrow> (error, nat) result" where
  "countBody v c =
     (case v of
        Bytes t \<Rightarrow> Ok (Count t c)
      | Text t \<Rightarrow> Ok (Count t c)
      | Form t \<Rightarrow> countForm t c 0
      | NoBody \<Rightarrow> Ok 0
      | OtherBody \<Rightarrow> Panic UnknownBodyType)"

definition SanityCheck :: "Step \<Rightarrow> nat \<Rightarrow> (error, unit) result" where
  "SanityCheck s stepNb =
     (case countBody (Body (Request s)) ''{{'' of
        Panic p \<Rightarrow> Panic p
      | Err e \<Rightarrow> Err e
      | Ok n \<Rightarrow>
          if n + Count (Sprintf_v (Header (Request s)) @ URL (Request s)) ''{{''
               < length (KeysInput s)
          then Err (StepError stepNb (StepName s) NotEnoughReplacements)
          else Ok ())"

subsection \<open>Substitution\<close>

definition replaceInBytes ::
  "('j, 'w) library \<Rightarrow> store \<Rightarrow> string \<Rightarrow> replace_error + string" where
  "replaceInBytes L vals bod =
     (case template L ''replacement'' vals bod of
        Inl msg \<Rightarrow> Inl (TemplateError msg)
      | Inr output \<Rightarrow> if output = bod then Inl NothingReplaced else Inr output)"

definition replaceInString ::
  "('j, 'w) library \<Rightarrow> store \<Rightarrow> string \<Rightarrow> replace_error + string" where
  "replaceInString L vals str =
     (case template L ''replacement'' vals str of
        Inl msg \<Rightarrow> Inl (TemplateError msg)
      | Inr output \<Rightarrow> Inr output)"

text \<open>
  The \<open>url.Values\<close> case of \<open>ReplaceInBody\<close>: the entries still to visit, the map
  \<open>tmp\<close> and the slice \<open>bod\<close> (\<open>None\<close> while it is \<open>nil\<close>).
\<close>

fun replaceInForm ::
  "('j, 'w) library \<Rightarrow> store \<Rightarrow> multimap \<Rightarrow> multimap \<Rightarrow> string option
     \<Rightarrow> (replace_error, string option) result" where
  "replaceInForm L vals [] tmp bod = Ok bod"
| "replaceInForm L vals ((k, v) # t) tmp bod =
     (case replaceInString L vals k of
        Inl e \<Rightarrow> Err e
      | Inr newK \<Rightarrow>
          if v = [] then Panic IndexOutOfRange
          else (case replaceInString L vals (last v) of
                  Inl e \<Rightarrow> Err e
                | Inr newV \<Rightarrow>
                    replaceInForm L vals t (put tmp newK [newV])
                      (Some (encode L (put tmp newK [newV])))))"

text \<open>
  \<open>ReplaceInBody\<close> returns its error or leaves the step with the new body.
\<close>

definition ReplaceInBody ::
  "('j, 'w) library \<Rightarrow> store \<Rightarrow> nat \<Rightarrow> Step \<Rightarrow> (error, Step) result" where
  "ReplaceInBody L vals stepNb s =
     (if KeysInput s \<noteq> [] \<and> Body (Request s) \<noteq> NoBody then
        (case Body (Request s) of
           Text t \<Rightarrow>
             (case replaceInBytes L vals t of
                Inl e \<Rightarrow> Err (StepError stepNb (StepName s) (Replace e))
              | Inr bod \<Rightarrow> Ok (s\<lparr>Request := (Request s)\<lparr>Body := Bytes bod\<rparr>\<rparr>))
         | Bytes t \<Rightarrow>
             (case replaceInBytes L vals t of
                Inl e \<Rightarrow> Err (StepError stepNb (StepName s) (Replace e))
              | Inr bod \<Rightarrow> Ok (s\<lparr>Request := (Request s)\<lparr>Body := Bytes bod\<rparr>\<rparr>))
         | Form t \<Rightarrow>
             (case replaceInForm L vals t [] None of
                Panic p \<Rightarrow> Panic p
              | Err e \<Rightarrow> Err (StepError stepNb (StepName s) (Replace e))
              | Ok None \<Rightarrow> Ok s
              | Ok (Some bod) \<Rightarrow> Ok (s\<lparr>Request := (Request s)\<lparr>Body := Bytes bod\<rparr>\<rparr>))
         | NoBody \<Rightarrow> Ok s
         | OtherBody \<Rightarrow> Panic UnknownBodyType)
      else Ok s)"

text \<open>\<open>Header.Get\<close> and \<open>Header.Set\<close>.\<close>

definition Header_Get :: "('j, 'w) library \<Rightarrow> multimap \<Rightarrow> string \<Rightarrow> string" where
  "Header_Get L h k =
     (case map_of h (canonical L k) of
        None \<Rightarrow> []
      | Some [] \<Rightarrow> []
      | Some (v # _) \<Rightarrow> v)"

definition Header_Set :: "('j, 'w) library \<Rightarrow> multimap \<Rightarrow> string \<Rightarrow> string \<Rightarrow> multimap" where
  "Header_Set L h k v = put h (canonical L k) [v]"

text \<open>
  \<open>ReplaceInHeader\<close> ranges over the keys of the header while it sets entries of the
  same map; the keys visited are those the map had when the loop began. The header is
  a map shared with the flow's step, so what the loop has set stays set when it
  returns an error: the result is the error, if any, and the header.
\<close>

fun replaceInHeaderKeys ::
  "('j, 'w) library \<Rightarrow> store \<Rightarrow> string \<Rightarrow> string list \<Rightarrow> multimap
     \<Rightarrow> string option \<times> multimap" where
  "replaceInHeaderKeys L vals name [] h = (None, h)"
| "replaceInHeaderKeys L vals name (k # ks) h =
     (case template L name vals (Header_Get L h k) of
        Inl msg \<Rightarrow> (Some msg, h)
      | Inr output \<Rightarrow> replaceInHeaderKeys L vals name ks (Header_Set L h k output))"

definition ReplaceInHeader ::
  "('j, 'w) library \<Rightarrow> store \<Rightarrow> nat \<Rightarrow> Step \<Rightarrow> string option \<times> Step" where
  "ReplaceInHeader L vals stepNb s =
     (case replaceInHeaderKeys L vals (StepName s) (map fst (Header (Request s)))
             (Header (Request s)) of
        (err, h) \<Rightarrow> (err, s\<lparr>Request := (Request s)\<lparr>Header := h\<rparr>\<rparr>))"

definition ReplaceInURL ::
  "('j, 'w) library \<Rightarrow> store \<Rightarrow> nat \<Rightarrow> Step \<Rightarrow> string + Step" where
  "ReplaceInURL L vals stepNB s =
     (case template L (StepName s) vals (URL (Request s)) of
        Inl msg \<Rightarrow> Inl msg
      | Inr output \<Rightarrow> Inr (s\<lparr>Request := (Request s)\<lparr>URL := output\<rparr>\<rparr>))"

subsection \<open>Sending\<close>

text \<open>
  \<open>Request.Do\<close>: the type assertion \<open>r.Body.([]byte)\<close> panics on a body that is not
  a \<open>[]byte\<close>.
\<close>

definition Do ::
  "('j, 'w) library \<Rightarrow> 'j \<Rightarrow> Request \<Rightarrow> 'w \<Rightarrow> (string, http_Response) result \<times> 'w" where
  "Do L jar r w =
     (case (case Body r of NoBody \<Rightarrow> Inr [] | Bytes b \<Rightarrow> Inr b | _ \<Rightarrow> Inl TypeAssertion) of
        Inl p \<Rightarrow> (Panic p, w)
      | Inr bod \<Rightarrow>
          (case send L jar \<lparr>wMethod = Method r, wURL = URL r, wHeader = Header r,
                            wBody = bod, wNoRedirects = IgnoreRedirects r\<rparr> w of
             (Inl msg, w') \<Rightarrow> (Err msg, w')
           | (Inr resp, w') \<Rightarrow> (Ok resp, w')))"

section \<open>Flows\<close>

record 'j Flow =
  RequiredValues :: "string list"
  Values :: store
  Steps :: "Step list"
  CookieJar :: "'j option"

datatype outcome = Completed | Failed error | Panicked panic

text \<open>
  The first key of a list that the store lacks or holds as the empty string: the test
  \<open>v, ok := m[k]; !ok || v == ""\<close> of both validation loops.
\<close>

fun missing :: "string list \<Rightarrow> store \<Rightarrow> string option" where
  "missing [] vals = None"
| "missing (k # ks) vals =
     (if lookup vals k = None \<or> lookup vals k = Some (VString []) then Some k
      else missing ks vals)"

text \<open>
  The loop over \<open>KeysOutput\<close> of step \<open>i\<close>: each result is written to the store,
  which panics when the store is the \<open>nil\<close> map.
\<close>

fun extractAll ::
  "('j, 'w) library \<Rightarrow> nat \<Rightarrow> string \<Rightarrow> string \<Rightarrow> Extractable list \<Rightarrow> store
     \<Rightarrow> outcome \<times> store" where
  "extractAll L i name body [] vals = (Completed, vals)"
| "extractAll L i name body (x # xs) vals =
     (case Extract (regexp L) x body of
        Inl p \<Rightarrow> (Panicked p, vals)
      | Inr (n, s, Some e) \<Rightarrow> (Failed (StepError i name (CouldNotExtract n e)), vals)
      | Inr (n, s, None) \<Rightarrow>
          if n = [] then (Failed (StepError i name (NoIndex s)), vals)
          else (case vals of
                  None \<Rightarrow> (Panicked NilMapAssignment, vals)
                | Some m \<Rightarrow> extractAll L i name body xs (Some (m(n \<mapsto> VString s)))))"

text \<open>Decoding and reading the response body.\<close>

definition readBody :: "('j, 'w) library \<Rightarrow> http_Response \<Rightarrow> string + string" where
  "readBody L resp =
     (if Header_Get L (RespHeader resp) ''Content-Encoding'' = ''gzip''
      then (case Stream resp of Inl msg \<Rightarrow> Inl msg | Inr bytes \<Rightarrow> gunzip L bytes)
      else Stream resp)"

text \<open>
  The body of the loop of \<open>Execute\<close> at index \<open>i\<close>, on the loop variable \<open>step\<close>, a
  copy of \<open>f.Steps[i]\<close>: the substituted body and URL stay in the copy, the header
  map is shared with \<open>f.Steps[i]\<close>, the response is stored in \<open>f.Steps[i]\<close>.
  \<open>Completed\<close> stands for reaching the end of the loop body.
\<close>

definition storeHeader :: "'j Flow \<Rightarrow> nat \<Rightarrow> multimap \<Rightarrow> 'j Flow" where
  "storeHeader f i h =
     f\<lparr>Steps := (Steps f)[i := (Steps f ! i)\<lparr>Request := (Request (Steps f ! i))\<lparr>Header := h\<rparr>\<rparr>]\<rparr>"

definition storeResponse :: "'j Flow \<Rightarrow> nat \<Rightarrow> Response \<Rightarrow> 'j Flow" where
  "storeResponse f i r = f\<lparr>Steps := (Steps f)[i := (Steps f ! i)\<lparr>Response := Some r\<rparr>]\<rparr>"

definition afterResponse ::
  "('j, 'w) library \<Rightarrow> nat \<Rightarrow> Step \<Rightarrow> http_Response \<Rightarrow> 'j Flow \<Rightarrow> outcome \<times> 'j Flow" where
  "afterResponse L i step resp f =
     (case readBody L resp of
        Inl msg \<Rightarrow> (Failed (Verbatim msg), f)
      | Inr body \<Rightarrow>
          (let f1 = storeResponse f i \<lparr>Raw = resp, RBody = body, RHeader = RespHeader resp\<rparr>
           in case extractAll L i (StepName step) body (KeysOutput step) (Values f1) of
                (Completed, vals) \<Rightarrow>
                  (case PostHook step of
                     None \<Rightarrow> (Completed, f1\<lparr>Values := vals\<rparr>)
                   | Some hook \<Rightarrow>
                       (case hook (StatusCode resp) (RespHeader resp) body of
                          Some msg \<Rightarrow>
                            (Failed (StepError i (StepName step) (Hook msg)), f1\<lparr>Values := vals\<rparr>)
                        | None \<Rightarrow> (Completed, f1\<lparr>Values := vals\<rparr>)))
              | (out, vals) \<Rightarrow> (out, f1\<lparr>Values := vals\<rparr>)))"

definition runStep ::
  "('j, 'w) library \<Rightarrow> 'j \<Rightarrow> nat \<Rightarrow> 'j Flow \<Rightarrow> 'w \<Rightarrow> outcome \<times> 'j Flow \<times> 'w" where
  "runStep L jar i f w =
     (let step = Steps f ! i in
      case missing (KeysInput step) (Values f) of
        Some k \<Rightarrow> (Failed (MissingValueError (Some (i, StepName step)) k), f, w)
      | None \<Rightarrow>
     (case SanityCheck step i of
        Panic p \<Rightarrow> (Panicked p, f, w)
      | Err e \<Rightarrow> (Failed e, f, w)
      | Ok _ \<Rightarrow>
     (case ReplaceInBody L (Values f) i step of
        Panic p \<Rightarrow> (Panicked p, f, w)
      | Err e \<Rightarrow> (Failed e, f, w)
      | Ok step1 \<Rightarrow>
     (case ReplaceInHeader L (Values f) i step1 of
        (Some msg, step2) \<Rightarrow>
          (Failed (Verbatim msg), storeHeader f i (Header (Request step2)), w)
      | (None, step2) \<Rightarrow>
     (let f1 = storeHeader f i (Header (Request step2)) in
      case ReplaceInURL L (Values f) i step2 of
        Inl msg \<Rightarrow> (Failed (Verbatim msg), f1, w)
      | Inr step3 \<Rightarrow>
     (case Do L jar (Request step3) w of
        (Panic p, w') \<Rightarrow> (Panicked p, f1, w')
      | (Err msg, w') \<Rightarrow> (Failed (Verbatim msg), f1, w')
      | (Ok resp, w') \<Rightarrow>
          (case afterResponse L i step3 resp f1 of (out, f2) \<Rightarrow> (out, f2, w'))))))))"

text \<open>The loop \<open>for i, step := range f.Steps\<close>, over the indices still to visit.\<close>

fun runSteps ::
  "('j, 'w) library \<Rightarrow> 'j \<Rightarrow> nat list \<Rightarrow> 'j Flow \<Rightarrow> 'w \<Rightarrow> outcome \<times> 'j Flow \<times> 'w" where
  "runSteps L jar [] f w = (Completed, f, w)"
| "runSteps L jar (i # is) f w =
     (case runStep L jar i f w of
        (Completed, f', w') \<Rightarrow> runSteps L jar is f' w'
      | r \<Rightarrow> r)"

definition Execute ::
  "('j, 'w) library \<Rightarrow> 'j Flow \<Rightarrow> store \<Rightarrow> 'w \<Rightarrow> outcome \<times> 'j Flow \<times> 'w" where
  "Execute L f vals w =
     (case missing (RequiredValues f) vals of
        Some k \<Rightarrow> (Failed (MissingValueError None k), f, w)
      | None \<Rightarrow>
          (let f1 = f\<lparr>Values := vals\<rparr> in
           case (case CookieJar f1 of None \<Rightarrow> cookiejar_New L | Some jar \<Rightarrow> Inr jar) of
             Inl msg \<Rightarrow> (Failed (Verbatim msg), f1, w)
           | Inr jar \<Rightarrow>
               runSteps L jar [0..<length (Steps f1)] (f1\<lparr>CookieJar := Some jar\<rparr>) w))"

subsection \<open>Observations on a run\<close>




fun rule_names :: "Extractable \<Rightarrow> string set" where
  "rule_names (Extractable a b n it mx mn p ig ag) =
     insert n (case ag of None \<Rightarrow> {} | Some e \<Rightarrow> rule_names e)"


text \<open>
  A library for the examples. Its template copies a text that holds no action
  \<open>{{\<close>, as \<open>text/template\<close> does, and rejects any other; its header keys are in
  canonical form already; its form encoding joins \<open>k=v\<close> pairs, exact for keys and
  values of unreserved characters; its network counts the requests sent, refuses
  the host \<open>down\<close> and answers any other request with the body \<open>-[abc]\<close>.
\<close>

definition template_sample :: "string \<Rightarrow> store \<Rightarrow> string \<Rightarrow> string + string" where
  "template_sample name vals text =
     (if Count text ''{{'' = 0 then Inr text else Inl ''template: action not supported'')"

definition encode_sample :: "multimap \<Rightarrow> string" where
  "encode_sample m = join ''&'' (map (\<lambda>(k, vs). k @ ''='' @ join '','' vs) (sort_key fst m))"

definition send_sample :: "unit \<Rightarrow> wire_request \<Rightarrow> nat \<Rightarrow> (string + http_Response) \<times> nat" where
  "send_sample jar req w =
     (if wURL req = ''http://down/'' then (Inl ''connection refused'', Suc w)
      else (Inr \<lparr>StatusCode = 200, RespHeader = [], Stream = Inr ''-[abc]''\<rparr>, Suc w))"

definition sample_library :: "(unit, nat) library" where
  "sample_library =
     \<lparr>regexp = regexp_Match_sample, template = template_sample, canonical = (\<lambda>k. k),
      encode = encode_sample, cookiejar_New = Inr (), send = send_sample,
      gunzip = (\<lambda>bytes. Inl ''gzip: invalid header'')\<rparr>"

definition sample_step :: "string \<Rightarrow> body \<Rightarrow> string list \<Rightarrow> Extractable list \<Rightarrow> Step" where
  "sample_step url b inputs outputs =
     \<lparr>StepName = ''login'',
      Request = \<lparr>URL = url, Method = ''POST'', Header = [], Body = b, IgnoreRedirects = False\<rparr>,
      Response = None, KeysInput = inputs, KeysOutput = outputs, PostHook = None\<rparr>"

definition sample_flow :: "Step \<Rightarrow> unit Flow" where
  "sample_flow s = \<lparr>RequiredValues = [''user''], Values = None, Steps = [s], CookieJar = None\<rparr>"


subsection \<open>Properties of substitution and execution\<close>

lemma missing_Some:
  "missing ks vals = Some k \<Longrightarrow>
     k \<in> set ks \<and> (lookup vals k = None \<or> lookup vals k = Some (VString []))"
  by (induction ks) (auto split: if_splits)

lemma missing_None:
  "missing ks vals = None \<Longrightarrow> k \<in> set ks \<Longrightarrow>
     lookup vals k \<noteq> None \<and> lookup vals k \<noteq> Some (VString [])"
  by (induction ks) (auto split: if_splits)

lemma missing_exists:
  "k \<in> set ks \<Longrightarrow> lookup vals k = None \<or> lookup vals k = Some (VString []) \<Longrightarrow>
     \<exists>k'. missing ks vals = Some k'"
  by (cases "missing ks vals") (auto dest: missing_None)










lemma names_update:
  "StepName x = StepName (xs ! i) \<Longrightarrow> map StepName (xs[i := x]) = map StepName xs"
  by (induction xs arbitrary: i) (auto split: nat.splits)

lemma outputs_update:
  "KeysOutput x = KeysOutput (xs ! i) \<Longrightarrow> map KeysOutput (xs[i := x]) = map KeysOutput xs"
  by (induction xs arbitrary: i) (auto split: nat.splits)



lemma storeHeader_simps [simp]:
  "Values (storeHeader f i h) = Values f"
  "map StepName (Steps (storeHeader f i h)) = map StepName (Steps f)"
  "map KeysOutput (Steps (storeHeader f i h)) = map KeysOutput (Steps f)"
  by (simp_all add: storeHeader_def names_update outputs_update)








lemmas sample_defs = sample_library_def template_sample_def encode_sample_def send_sample_def
  sample_step_def sample_flow_def regexp_Match_sample_def

lemmas exec_defs = Execute_def runStep_def SanityCheck_def countBody_def Sprintf_v_def
  ReplaceInBody_def ReplaceInHeader_def ReplaceInURL_def Do_def afterResponse_def readBody_def
  Header_Get_def Header_Set_def storeHeader_def storeResponse_def replaceInBytes_def
  replaceInString_def lookup_def Let_def Extract_def Extract_from_unfold stringBetweenN_0
  StringBetween_def check_conditions_def Count.simps





lemma rule_names_set_MatchRegexp [simp]:
  "rule_names (set_MatchRegexp p e) = rule_names e"
  by (cases e) simp














section \<open>Claims\<close>

text \<open>
  C1 (failing input). The claim promises not-found whenever the body holds at most
  \<open>n\<close> matches. The body \<open>a\<close> holds no text bounded by \<open>a\<close> and \<open>]\<close> at all,
  yet the search for occurrence \<open>1\<close> does not report not-found: the slice that skips
  the first delimiter starts one byte past its end and the call panics.
\<close>

theorem stringBetweenN_panics_past_end:
  "stringBetweenN ''a'' ''a'' '']'' 1 = Inl SliceBoundsOutOfRange"
  by (simp add: stringBetweenN.simps [of "''a''"])

text \<open>
  C2. A candidate found at occurrence \<open>i\<close> is checked against the maximal length
  first, the minimal length second and the anchored pattern last, and the first
  violated constraint is the one the error reports; a candidate that violates none is
  returned (or handed to \<open>Again\<close>). The error is visible when the rule neither
  iterates nor ignores failures.
\<close>

theorem Extract_constraint_order:
  assumes "stringBetweenN body (AfterThis e) (BeforeThis e) i = Inr (True, bet)"
    and "\<not> Iterate e" and "\<not> IgnoreNotFound e"
  shows "(MaxLength e \<noteq> - 1 \<and> MaxLength e < int (length bet) \<longrightarrow>
            Extract_from rx e body i = Inr (Name e, [], Some (MaxLengthReached (MaxLength e) bet)))
       \<and> (\<not> (MaxLength e \<noteq> - 1 \<and> MaxLength e < int (length bet)) \<and>
          MinLength e \<noteq> - 1 \<and> int (length bet) < MinLength e \<longrightarrow>
            Extract_from rx e body i = Inr (Name e, [], Some (MinLengthReached (MinLength e) bet)))
       \<and> (\<not> (MaxLength e \<noteq> - 1 \<and> MaxLength e < int (length bet)) \<and>
          \<not> (MinLength e \<noteq> - 1 \<and> int (length bet) < MinLength e) \<and>
          MatchRegexp e \<noteq> [] \<and> rx (auto_anchored (MatchRegexp e)) bet = Inr False \<longrightarrow>
            Extract_from rx e body i =
              Inr (Name e, [], Some (RegexNotMatched (auto_anchored (MatchRegexp e)) bet)))
       \<and> (\<not> (MaxLength e \<noteq> - 1 \<and> MaxLength e < int (length bet)) \<and>
          \<not> (MinLength e \<noteq> - 1 \<and> int (length bet) < MinLength e) \<and>
          (MatchRegexp e = [] \<or> rx (auto_anchored (MatchRegexp e)) bet = Inr True) \<longrightarrow>
            Extract_from rx e body i =
              (case Again e of Some a \<Rightarrow> Extract_from rx a bet 0
                             | None \<Rightarrow> Inr (Name e, bet, None)))"
  using assms
  by (auto simp: Extract_from_unfold [of rx e body i] check_conditions_def Let_def
        anchor_auto_anchored matched_def)

theorem Extract_constraint_order_witness:
  "Extract_from regexp_Match_sample
      (Extractable ''-['' '']'' ''tok'' False 3 1 ''abc'' False None) ''-[abcd]'' 0
     = Inr (''tok'', [], Some (MaxLengthReached 3 ''abcd''))
   \<and> Extract_from regexp_Match_sample
      (Extractable ''-['' '']'' ''tok'' False 3 1 ''abc'' False None) ''-[]'' 0
     = Inr (''tok'', [], Some (MinLengthReached 1 []))
   \<and> Extract_from regexp_Match_sample
      (Extractable ''-['' '']'' ''tok'' False 3 1 ''abc'' False None) ''-[ab]'' 0
     = Inr (''tok'', [], Some (RegexNotMatched ''^abc$'' ''ab''))
   \<and> Extract_from regexp_Match_sample
      (Extractable ''-['' '']'' ''tok'' False 3 1 ''abc'' False None) ''-[abc]'' 0
     = Inr (''tok'', ''abc'', None)"
  using Extract_constraint_order [of "''-[abcd]''"
          "Extractable ''-['' '']'' ''tok'' False 3 1 ''abc'' False None" 0 "''abcd''"
          regexp_Match_sample]
        Extract_constraint_order [of "''-[]''"
          "Extractable ''-['' '']'' ''tok'' False 3 1 ''abc'' False None" 0 "[]"
          regexp_Match_sample]
        Extract_constraint_order [of "''-[ab]''"
          "Extractable ''-['' '']'' ''tok'' False 3 1 ''abc'' False None" 0 "''ab''"
          regexp_Match_sample]
        Extract_constraint_order [of "''-[abc]''"
          "Extractable ''-['' '']'' ''tok'' False 3 1 ''abc'' False None" 0 "''abc''"
          regexp_Match_sample]
  by (simp add: stringBetweenN_0 StringBetween_def auto_anchored_def regexp_Match_sample_def)

text \<open>
  C3 (failing input). The body \<open>ab\<close> holds the delimiter \<open>ab\<close> once: with an
  empty \<open>BeforeThis\<close> occurrence \<open>0\<close> is the empty candidate, which
  \<open>MinLength = 1\<close> rejects, and no further occurrence exists. The search is
  exhausted and \<open>IgnoreNotFound\<close> is set, so the claim promises
  \<open>(Name, "", nil)\<close>; the search for occurrence \<open>1\<close> panics instead, on the
  slice of C1.
\<close>

theorem Extract_exhausted_panics:
  "StringBetween ''ab'' ''ab'' [] = (True, [])
   \<and> Index (drop 2 ''ab'') ''ab'' = - 1
   \<and> Extract rx (Extractable ''ab'' [] ''tok'' True (- 1) 1 [] True None) ''ab''
       = Inl SliceBoundsOutOfRange"
  by (simp add: Extract_def Extract_from_unfold [of _ _ _ 0] Extract_from_unfold [of _ _ _ 1]
        stringBetweenN_0 StringBetween_def check_conditions_def
        stringBetweenN.simps [of "''ab''" _ _ 1])




text \<open>
  C5. When a key of \<open>RequiredValues\<close> is absent from the supplied map or maps to
  the empty string, \<open>Execute\<close> returns the missing-value error with the empty
  prefix, naming such a key (the first one in the list), and leaves the flow and the
  state of the network as they were: no step has run and nothing was sent.
\<close>

theorem Execute_required_values:
  assumes "k \<in> set (RequiredValues f)"
    and "lookup vals k = None \<or> lookup vals k = Some (VString [])"
  shows "\<exists>k' \<in> set (RequiredValues f).
           (lookup vals k' = None \<or> lookup vals k' = Some (VString [])) \<and>
           Execute L f vals w = (Failed (MissingValueError None k'), f, w)"
proof -
  obtain k' where m: "missing (RequiredValues f) vals = Some k'"
    using missing_exists [OF assms] by blast
  then have "Execute L f vals w = (Failed (MissingValueError None k'), f, w)"
    by (simp add: Execute_def)
  with missing_Some [OF m] show ?thesis by blast
qed

theorem Execute_required_values_witness:
  "Execute sample_library
      (sample_flow (sample_step ''http://host/'' NoBody [] []))
      (Some [''user'' \<mapsto> VString []]) 0
     = (Failed (MissingValueError None ''user''),
        sample_flow (sample_step ''http://host/'' NoBody [] []), 0)
   \<and> Execute sample_library
      (sample_flow (sample_step ''http://host/'' NoBody [] [])) None 0
     = (Failed (MissingValueError None ''user''),
        sample_flow (sample_step ''http://host/'' NoBody [] []), 0)"
  using Execute_required_values [of "''user''"
          "sample_flow (sample_step ''http://host/'' NoBody [] [])"
          "Some [''user'' \<mapsto> VString []]" sample_library 0]
        Execute_required_values [of "''user''"
          "sample_flow (sample_step ''http://host/'' NoBody [] [])"
          None sample_library 0]
  by (simp add: sample_flow_def lookup_def)




text \<open>
  C8 (failing input). A step with a textual body, or a form body, and no input keys:
  \<open>ReplaceInBody\<close> leaves the body as it is, and \<open>Request.Do\<close> asserts that a
  body is a \<open>[]byte\<close>, so \<open>Execute\<close> panics before anything is sent.
\<close>

theorem Execute_text_body_panics:
  "Execute sample_library
      (sample_flow (sample_step ''http://host/'' (Text ''hello'') [] []))
      (Some [''user'' \<mapsto> VString ''u'']) 0
     = (Panicked TypeAssertion,
        (sample_flow (sample_step ''http://host/'' (Text ''hello'') [] []))
          \<lparr>Values := Some [''user'' \<mapsto> VString ''u''], CookieJar := Some ()\<rparr>, 0)
   \<and> Execute sample_library
      (sample_flow (sample_step ''http://host/'' (Form [(''k'', [''v''])]) [] []))
      (Some [''user'' \<mapsto> VString ''u'']) 0
     = (Panicked TypeAssertion,
        (sample_flow (sample_step ''http://host/'' (Form [(''k'', [''v''])]) [] []))
          \<lparr>Values := Some [''user'' \<mapsto> VString ''u''], CookieJar := Some ()\<rparr>, 0)"
  by (simp add: exec_defs sample_defs)

text \<open>
  C9 (counterexample). The pattern \<open>(\<close> anchors to \<open>^($\<close>, which does not
  compile; the candidate \<open>x\<close> passes both length constraints, and \<open>Extract\<close>
  does not return it: the call ends in the regex-not-matched error.
\<close>

theorem Extract_invalid_regexp_counterexample:
  "regexp_Match_sample (anchor ''('') ''x'' = Inl ''missing closing )''
   \<and> Extract regexp_Match_sample
        (Extractable ''-['' '']'' ''tok'' False (- 1) (- 1) ''('' False None) ''-[x]''
      = Inr (''tok'', [], Some (RegexNotMatched ''^($'' ''x''))
   \<and> Extract regexp_Match_sample
        (Extractable ''-['' '']'' ''tok'' False (- 1) (- 1) ''('' False None) ''-[x]''
      \<noteq> Inr (''tok'', ''x'', None)"
  by (simp add: Extract_def Extract_from_unfold stringBetweenN_0 StringBetween_def
        check_conditions_def anchor_def regexp_Match_sample_def matched_def Let_def)

text \<open>
  C9 (amended). A candidate that passes the length constraints under a pattern that
  does not compile is never returned: it is rejected as a constraint violation, so the
  loop goes on to the next occurrence under \<open>Iterate\<close> and otherwise the call
  returns the empty value, with an error unless \<open>IgnoreNotFound\<close> is set.
\<close>

theorem Extract_invalid_regexp_rejected:
  assumes "stringBetweenN body (AfterThis e) (BeforeThis e) i = Inr (True, bet)"
    and "\<not> (MaxLength e \<noteq> - 1 \<and> MaxLength e < int (length bet))"
    and "\<not> (MinLength e \<noteq> - 1 \<and> int (length bet) < MinLength e)"
    and "MatchRegexp e \<noteq> []"
    and "rx (anchor (MatchRegexp e)) bet = Inl msg"
  shows "\<exists>err. Extract_from rx e body i =
           (if Iterate e then Extract_from rx e body (i + 1)
            else Inr (Name e, [], if IgnoreNotFound e then None else Some err))"
proof -
  have v: "fst (check_conditions rx e bet)
             = Some (RegexNotMatched (anchor (MatchRegexp e)) bet)"
    using assms by (simp add: check_conditions_def Let_def matched_def)
  show ?thesis
  proof (cases "Iterate e")
    case True
    then show ?thesis
      using Extract_from_retry [OF assms(1) _ True, of rx] v by simp
  next
    case False
    then show ?thesis
      using assms(1) v by (simp add: Extract_from_unfold [of rx e body i])
  qed
qed

theorem Extract_invalid_regexp_rejected_witness:
  "regexp_Match_sample (anchor ''('') ''x'' = Inl ''missing closing )''
   \<and> (\<exists>err. Extract_from regexp_Match_sample
      (Extractable ''-['' '']'' ''tok'' False (- 1) (- 1) ''('' False None) ''-[x]'' 0
     = Inr (''tok'', [], Some err))"
  using Extract_invalid_regexp_rejected [of "''-[x]''"
          "Extractable ''-['' '']'' ''tok'' False (- 1) (- 1) ''('' False None" 0 "''x''"
          regexp_Match_sample "''missing closing )''"]
  by (simp add: stringBetweenN_0 StringBetween_def anchor_def regexp_Match_sample_def)



end
